theory Spec2Isabelle
  imports Main "HOL-Library.Sublist"
begin

section \<open>Data model of docker.go\<close>

text \<open>
  Go's \<open>error\<close> values. \<open>New\<close> is \<open>errors.New\<close> and \<open>Wrap\<close> is \<open>errors.Wrap\<close> of
  github.com/pkg/errors (the cause first, the message second, as in the calls of the
  source). \<open>External\<close> is an error value produced by a library the program calls (the
  Docker client, go-connections/nat, io), known only by its message.
\<close>

datatype error = New string | Wrap error string | External string

text \<open>The message of an error (\<open>err.Error()\<close>): a wrapped error prints as \<open>message: cause\<close>.\<close>

fun Error :: "error \<Rightarrow> string" where
  "Error (New m) = m"
| "Error (Wrap err m) = m @ '': '' @ Error err"
| "Error (External m) = m"

text \<open>
  A Go slice of strings is either \<open>nil\<close> (\<open>None\<close>) or a non-nil slice with its elements
  (\<open>Some xs\<close>, where \<open>xs\<close> may be empty): the source compares a slice with \<open>nil\<close>, and
  \<open>[]string{}\<close> is not \<open>nil\<close>. \<open>len\<close> of either empty form is 0.
\<close>

type_synonym string_slice = "string list option"

fun len :: "string_slice \<Rightarrow> nat" where
  "len None = 0"
| "len (Some xs) = length xs"

text \<open>\<open>*client.Client\<close>: an opaque handle to the container engine.\<close>

datatype Client = ClientHandle nat

text \<open>
  \<open>type Container struct\<close>. \<open>Sleep\<close> is a \<open>time.Duration\<close> (a count of nanoseconds on
  which the program does no arithmetic), \<open>client\<close> is a pointer (\<open>None\<close> is \<open>nil\<close>), and
  the field \<open>id\<close> is written \<open>id'\<close>.
\<close>

record Container =
  ImageToPull :: string
  HostPort :: string
  ContainerPort :: string
  ContainerProtocol :: string
  BindHostConfig :: string_slice
  Env :: string_slice
  Cmd :: string_slice
  Sleep :: int
  client :: "Client option"
  id' :: string

subsection \<open>The option functions\<close>

text \<open>
  Each \<open>With...\<close> function returns a closure that assigns one field of the
  \<open>*Container\<close> it is given; the closure is modelled by the function from the
  configuration before the assignment to the configuration after it.
\<close>

definition WithContainerProtocol :: "string \<Rightarrow> Container \<Rightarrow> Container" where
  "WithContainerProtocol protocol = (\<lambda>c. c\<lparr>ContainerProtocol := protocol\<rparr>)"

definition WithHostPort :: "string \<Rightarrow> Container \<Rightarrow> Container" where
  "WithHostPort hostPort = (\<lambda>c. c\<lparr>HostPort := hostPort\<rparr>)"

definition WithContainerPort :: "string \<Rightarrow> Container \<Rightarrow> Container" where
  "WithContainerPort containerPort = (\<lambda>c. c\<lparr>ContainerPort := containerPort\<rparr>)"

definition WithBindHostConfig :: "string_slice \<Rightarrow> Container \<Rightarrow> Container" where
  "WithBindHostConfig bindHostConfig = (\<lambda>c. c\<lparr>BindHostConfig := bindHostConfig\<rparr>)"

definition WithEnv :: "string_slice \<Rightarrow> Container \<Rightarrow> Container" where
  "WithEnv env = (\<lambda>c. c\<lparr>Env := env\<rparr>)"

definition WithCmd :: "string_slice \<Rightarrow> Container \<Rightarrow> Container" where
  "WithCmd cmd = (\<lambda>c. c\<lparr>Cmd := cmd\<rparr>)"

definition WithSleep :: "int \<Rightarrow> Container \<Rightarrow> Container" where
  "WithSleep sleepTime = (\<lambda>c. c\<lparr>Sleep := sleepTime\<rparr>)"

subsection \<open>NewContainer\<close>

text \<open>
  \<open>NewContainer\<close> returns \<open>(nil, err)\<close> (here \<open>Inl err\<close>) or \<open>(conf, nil)\<close> (here
  \<open>Inr conf\<close>). The struct literal leaves \<open>BindHostConfig\<close>, \<open>Env\<close>, \<open>Cmd\<close>, \<open>Sleep\<close>,
  \<open>client\<close> and \<open>id\<close> at their zero values. The loop over \<open>options\<close> applies each
  option to \<open>conf\<close> in order.
\<close>

fun apply_options :: "(Container \<Rightarrow> Container) list \<Rightarrow> Container \<Rightarrow> Container" where
  "apply_options [] conf = conf"
| "apply_options (opt # options) conf = apply_options options (opt conf)"

definition NewContainer ::
  "string \<Rightarrow> string \<Rightarrow> (Container \<Rightarrow> Container) list \<Rightarrow> error + Container" where
  "NewContainer imageToPull containerPort options =
     (if imageToPull = '''' then Inl (New ''imageToPull cannot be empty'')
      else if containerPort = '''' then Inl (New ''containerPort cannot be empty'')
      else
        let conf = \<lparr>ImageToPull = imageToPull,
                    HostPort = ''9876'',
                    ContainerPort = containerPort,
                    ContainerProtocol = ''tcp'',
                    BindHostConfig = None,
                    Env = None,
                    Cmd = None,
                    Sleep = 0,
                    client = None,
                    id' = ''''\<rparr>
        in Inr (apply_options options conf))"

subsection \<open>The seven option functions, enumerated\<close>

text \<open>
  The callers of \<open>NewContainer\<close> outside the package build its options from the seven
  \<open>With...\<close> functions. \<open>mutator\<close> names one of them with its argument, \<open>mutator_fn\<close> is
  the option it stands for and \<open>mutator_field\<close> the field that option assigns.
\<close>

datatype mutator =
    MContainerProtocol string
  | MHostPort string
  | MContainerPort string
  | MBindHostConfig string_slice
  | MEnv string_slice
  | MCmd string_slice
  | MSleep int

datatype field =
    FContainerProtocol | FHostPort | FContainerPort | FBindHostConfig | FEnv | FCmd | FSleep

fun mutator_fn :: "mutator \<Rightarrow> Container \<Rightarrow> Container" where
  "mutator_fn (MContainerProtocol protocol) = WithContainerProtocol protocol"
| "mutator_fn (MHostPort hostPort) = WithHostPort hostPort"
| "mutator_fn (MContainerPort containerPort) = WithContainerPort containerPort"
| "mutator_fn (MBindHostConfig bindHostConfig) = WithBindHostConfig bindHostConfig"
| "mutator_fn (MEnv env) = WithEnv env"
| "mutator_fn (MCmd cmd) = WithCmd cmd"
| "mutator_fn (MSleep sleepTime) = WithSleep sleepTime"

fun mutator_field :: "mutator \<Rightarrow> field" where
  "mutator_field (MContainerProtocol protocol) = FContainerProtocol"
| "mutator_field (MHostPort hostPort) = FHostPort"
| "mutator_field (MContainerPort containerPort) = FContainerPort"
| "mutator_field (MBindHostConfig bindHostConfig) = FBindHostConfig"
| "mutator_field (MEnv env) = FEnv"
| "mutator_field (MCmd cmd) = FCmd"
| "mutator_field (MSleep sleepTime) = FSleep"

section \<open>The container engine and the other libraries\<close>

text \<open>
  The types of the Docker client and of go-connections/nat that the program builds or
  receives. Of \<open>container.Config\<close>, \<open>container.HostConfig\<close> and \<open>types.ExecConfig\<close> only
  the fields the source assigns are kept; every other field has its zero value in every
  call. A \<open>nat.PortMap\<close> is a Go map; the source builds it with a single key, so it is
  the list of its entries.
\<close>

datatype Port = Port string

record PortBinding =
  PortBinding_HostIP :: string
  PortBinding_HostPort :: string

type_synonym PortMap = "(Port \<times> PortBinding list) list"

record Config =
  Config_AttachStdout :: bool
  Config_AttachStderr :: bool
  Config_Env :: string_slice
  Config_Image :: string

record HostConfig =
  HostConfig_PortBindings :: PortMap
  HostConfig_Binds :: string_slice

record ExecConfig =
  ExecConfig_AttachStdout :: bool
  ExecConfig_AttachStderr :: bool
  ExecConfig_Cmd :: string_slice

text \<open>
  Streams are handles: the \<open>io.ReadCloser\<close> that \<open>ImagePull\<close> returns, and the
  connection and the reader of the \<open>types.HijackedResponse\<close> that \<open>ContainerExecAttach\<close>
  returns.
\<close>

type_synonym stream = nat

record HijackedResponse =
  Conn :: stream
  Reader :: stream

text \<open>
  The calls the program makes outside itself, with their arguments. The context
  argument is always \<open>context.Background()\<close> and the option structs
  (\<open>ImagePullOptions\<close>, \<open>ContainerStartOptions\<close>, \<open>ExecStartCheck\<close>, \<open>StopOptions\<close>,
  \<open>ContainerRemoveOptions\<close>) are always empty, so they are left out. The last three
  arguments of \<open>CallContainerCreate\<close> are the networking configuration, the platform
  (pointers, \<open>None\<close> for \<open>nil\<close>) and the container name.
\<close>

datatype event =
    CallNewClientWithOpts
  | CallNewPort string string
  | CallImagePull Client string
  | CallContainerCreate Client Config HostConfig "unit option" "unit option" string
  | CallContainerStart Client string
  | CallSleep int
  | CallContainerExecCreate Client string ExecConfig
  | CallContainerExecAttach Client string
  | CallContainerExecStart Client string
  | CallReadAll stream
  | CallPrintln string
  | CallClose HijackedResponse
  | CallContainerStop Client string
  | CallContainerRemove Client string
  | CallPrintf string error

text \<open>
  A trace lists the calls of one run in the order they are made, each with the error it
  returned (\<open>None\<close> for a \<open>nil\<close> error, and for a call that returns no error value).
\<close>

type_synonym trace = "(event \<times> error option) list"

text \<open>
  What the libraries answer is a parameter of the model. A Go function returning
  \<open>(value, error)\<close> answers \<open>Inl err\<close> or \<open>Inr value\<close>; one returning only an error
  answers \<open>Some err\<close> or \<open>None\<close>; \<open>ioutil.ReadAll\<close> returns the bytes read together with
  its error.
\<close>

record runtime =
  NewClientWithOpts :: "error + Client"
  NewPort :: "string \<Rightarrow> string \<Rightarrow> error + Port"
  ImagePull :: "Client \<Rightarrow> string \<Rightarrow> error + stream"
  ContainerCreate ::
    "Client \<Rightarrow> Config \<Rightarrow> HostConfig \<Rightarrow> unit option \<Rightarrow> unit option \<Rightarrow> string \<Rightarrow> error + string"
  ContainerStart :: "Client \<Rightarrow> string \<Rightarrow> error option"
  ContainerExecCreate :: "Client \<Rightarrow> string \<Rightarrow> ExecConfig \<Rightarrow> error + string"
  ContainerExecAttach :: "Client \<Rightarrow> string \<Rightarrow> error + HijackedResponse"
  ContainerExecStart :: "Client \<Rightarrow> string \<Rightarrow> error option"
  ReadAll :: "stream \<Rightarrow> string \<times> error option"
  ContainerStop :: "Client \<Rightarrow> string \<Rightarrow> error option"
  ContainerRemove :: "Client \<Rightarrow> string \<Rightarrow> error option"

section \<open>Provisioning and teardown\<close>

subsection \<open>executeCommands\<close>

text \<open>
  \<open>executeCommands\<close> returns its error and the calls it made. After a successful
  \<open>ContainerExecAttach\<close> the source registers \<open>defer response.Close()\<close>: the rest of the
  body runs, and the close is made when the function returns, on whichever path. The
  error of \<open>ioutil.ReadAll\<close> is assigned to \<open>_\<close>.
\<close>

definition executeCommands ::
  "runtime \<Rightarrow> Client \<Rightarrow> string \<Rightarrow> string_slice \<Rightarrow> error option \<times> trace" where
  "executeCommands rt cli cid cmd =
     (if cmd = None then (None, [])
      else
        let execConfig = \<lparr>ExecConfig_AttachStdout = True,
                          ExecConfig_AttachStderr = True,
                          ExecConfig_Cmd = cmd\<rparr>
        in
        (case ContainerExecCreate rt cli cid execConfig of
           Inl err \<Rightarrow>
             (Some (Wrap err ''unable to create exec configuration''),
              [(CallContainerExecCreate cli cid execConfig, Some err)])
         | Inr execID \<Rightarrow>
             let t1 = [(CallContainerExecCreate cli cid execConfig, None)] in
             (case ContainerExecAttach rt cli execID of
                Inl err \<Rightarrow>
                  (Some (Wrap err ''unable to attach connection''),
                   t1 @ [(CallContainerExecAttach cli execID, Some err)])
              | Inr response \<Rightarrow>
                  let t2 = t1 @ [(CallContainerExecAttach cli execID, None)];
                      (result, body) =
                        (case ContainerExecStart rt cli execID of
                           Some err \<Rightarrow>
                             (Some (Wrap err ''unable to start exec''),
                              [(CallContainerExecStart cli execID, Some err)])
                         | None \<Rightarrow>
                             let (data, readErr) = ReadAll rt (Reader response) in
                             (None,
                              [(CallContainerExecStart cli execID, None),
                               (CallReadAll (Reader response), readErr),
                               (CallPrintln data, None)]))
                  in (result, t2 @ body @ [(CallClose response, None)]))))"

subsection \<open>CreateContainer\<close>

text \<open>
  \<open>CreateContainer\<close> has a pointer receiver: it returns its error, the \<open>Container\<close> as
  it leaves it, and the calls it made. The stream that \<open>ImagePull\<close> returns is assigned
  to \<open>_\<close>.
\<close>

definition CreateContainer :: "runtime \<Rightarrow> Container \<Rightarrow> error option \<times> Container \<times> trace" where
  "CreateContainer rt c =
     (case NewClientWithOpts rt of
        Inl err \<Rightarrow>
          (Some (Wrap err ''unable to create docker client''), c,
           [(CallNewClientWithOpts, Some err)])
      | Inr cli \<Rightarrow>
          let t1 = [(CallNewClientWithOpts, None)];
              hostBinding = \<lparr>PortBinding_HostIP = ''127.0.0.1'',
                             PortBinding_HostPort = HostPort c\<rparr>
          in
          (case NewPort rt (ContainerProtocol c) (ContainerPort c) of
             Inl err \<Rightarrow>
               (Some (Wrap err ''unable to get port''), c,
                t1 @ [(CallNewPort (ContainerProtocol c) (ContainerPort c), Some err)])
           | Inr containerPort \<Rightarrow>
               let t2 = t1 @ [(CallNewPort (ContainerProtocol c) (ContainerPort c), None)];
                   portBinding = [(containerPort, [hostBinding])]
               in
               (case ImagePull rt cli (ImageToPull c) of
                  Inl err \<Rightarrow>
                    (Some (Wrap err ''unable to pull image''), c,
                     t2 @ [(CallImagePull cli (ImageToPull c), Some err)])
                | Inr _ \<Rightarrow>
                    let t3 = t2 @ [(CallImagePull cli (ImageToPull c), None)];
                        config = \<lparr>Config_AttachStdout = True,
                                  Config_AttachStderr = True,
                                  Config_Env = Env c,
                                  Config_Image = ImageToPull c\<rparr>;
                        hostConfig = \<lparr>HostConfig_PortBindings = portBinding,
                                      HostConfig_Binds = BindHostConfig c\<rparr>
                    in
                    (case ContainerCreate rt cli config hostConfig None None '''' of
                       Inl err \<Rightarrow>
                         (Some (Wrap err ''unable to create container''), c,
                          t3 @ [(CallContainerCreate cli config hostConfig None None '''', Some err)])
                     | Inr cont_ID \<Rightarrow>
                         let t4 = t3 @ [(CallContainerCreate cli config hostConfig None None '''', None)]
                         in
                         (case ContainerStart rt cli cont_ID of
                            Some err \<Rightarrow>
                              (Some (Wrap err ''unable to start container''), c,
                               t4 @ [(CallContainerStart cli cont_ID, Some err)])
                          | None \<Rightarrow>
                              let t5 = t4 @ [(CallContainerStart cli cont_ID, None)];
                                  t6 = t5 @ [(CallSleep (Sleep c), None)];
                                  (execErr, t7) = executeCommands rt cli cont_ID (Cmd c)
                              in
                              (case execErr of
                                 Some err \<Rightarrow>
                                   (Some (Wrap err ''commands were not executed''), c, t6 @ t7)
                               | None \<Rightarrow>
                                   (None, c\<lparr>id' := cont_ID, client := Some cli\<rparr>, t6 @ t7)))))))"

subsection \<open>Stop\<close>

text \<open>
  \<open>Stop\<close> returns nothing. It calls methods of \<open>c.client\<close>; when that pointer is \<open>nil\<close>
  (an instance that was never provisioned) the Docker client dereferences it and the
  program panics. Otherwise \<open>Stop\<close> returns normally, with the calls it made; each error
  is passed to \<open>log.Printf\<close> and dropped.
\<close>

datatype panic = NilPointerDereference

definition Stop :: "runtime \<Rightarrow> Container \<Rightarrow> panic + trace" where
  "Stop rt c =
     (case client c of
        None \<Rightarrow> Inl NilPointerDereference
      | Some cli \<Rightarrow>
          let t1 = (case ContainerStop rt cli (id' c) of
                      Some err \<Rightarrow>
                        [(CallContainerStop cli (id' c), Some err),
                         (CallPrintf ''unable to stop container: %v'' err, None)]
                    | None \<Rightarrow> [(CallContainerStop cli (id' c), None)]);
              t2 = (case ContainerRemove rt cli (id' c) of
                      Some err \<Rightarrow>
                        [(CallContainerRemove cli (id' c), Some err),
                         (CallPrintf ''unable to remove container: %v'' err, None)]
                    | None \<Rightarrow> [(CallContainerRemove cli (id' c), None)])
          in Inr (t1 @ t2))"

section \<open>Reading a trace\<close>

text \<open>
  The steps of provisioning, in the order the specification numbers them, and the step
  each call belongs to. The calls of \<open>executeCommands\<close> (with the draining, the logging
  and the release of the attached connection) are the exec step; the calls of \<open>Stop\<close>
  are teardown.
\<close>

datatype step =
    Connect | ResolvePort | PullImage | CreateStep | StartStep | SleepStep | ExecStep | Teardown

definition provision_order :: "step list" where
  "provision_order = [Connect, ResolvePort, PullImage, CreateStep, StartStep, SleepStep, ExecStep]"

fun step_of :: "event \<Rightarrow> step" where
  "step_of CallNewClientWithOpts = Connect"
| "step_of (CallNewPort proto port) = ResolvePort"
| "step_of (CallImagePull cli img) = PullImage"
| "step_of (CallContainerCreate cli config hostConfig netw platform name) = CreateStep"
| "step_of (CallContainerStart cli cid) = StartStep"
| "step_of (CallSleep d) = SleepStep"
| "step_of (CallContainerExecCreate cli cid execConfig) = ExecStep"
| "step_of (CallContainerExecAttach cli execID) = ExecStep"
| "step_of (CallContainerExecStart cli execID) = ExecStep"
| "step_of (CallReadAll s) = ExecStep"
| "step_of (CallPrintln data) = ExecStep"
| "step_of (CallClose response) = ExecStep"
| "step_of (CallContainerStop cli cid) = Teardown"
| "step_of (CallContainerRemove cli cid) = Teardown"
| "step_of (CallPrintf format err) = Teardown"

text \<open>The steps a trace goes through, each once however many calls it makes.\<close>

definition steps :: "trace \<Rightarrow> step list" where
  "steps tr = remdups_adj (map (\<lambda>x. step_of (fst x)) tr)"

text \<open>
  The message with which \<open>CreateContainer\<close> wraps the failure of each step, as the
  specification lists them.
\<close>

fun step_message :: "step \<Rightarrow> string" where
  "step_message Connect = ''unable to create docker client''"
| "step_message ResolvePort = ''unable to get port''"
| "step_message PullImage = ''unable to pull image''"
| "step_message CreateStep = ''unable to create container''"
| "step_message StartStep = ''unable to start container''"
| "step_message ExecStep = ''commands were not executed''"
| "step_message s = []"

text \<open>
  The operations of the container engine and of the port library: the calls whose error
  the program checks. Sleeping, draining a stream, logging and closing are not among
  them.
\<close>

fun engine_call :: "event \<Rightarrow> bool" where
  "engine_call (CallSleep d) = False"
| "engine_call (CallReadAll s) = False"
| "engine_call (CallPrintln data) = False"
| "engine_call (CallClose response) = False"
| "engine_call (CallPrintf format err) = False"
| "engine_call ev = True"

text \<open>A trace entry is a failed step when it is an engine call that returned an error.\<close>

definition failed :: "event \<times> error option \<Rightarrow> bool" where
  "failed x = (engine_call (fst x) \<and> snd x \<noteq> None)"

text \<open>The trace from its first failed entry on (empty when no entry failed).\<close>

definition from_first_failure :: "trace \<Rightarrow> trace" where
  "from_first_failure tr = dropWhile (\<lambda>x. \<not> failed x) tr"

text \<open>The calls of a trace that satisfy a predicate, in order.\<close>

definition calls :: "(event \<Rightarrow> bool) \<Rightarrow> trace \<Rightarrow> event list" where
  "calls P tr = filter P (map fst tr)"

fun is_exec_call :: "event \<Rightarrow> bool" where
  "is_exec_call (CallContainerExecCreate cli cid execConfig) = True"
| "is_exec_call (CallContainerExecAttach cli execID) = True"
| "is_exec_call (CallContainerExecStart cli execID) = True"
| "is_exec_call ev = False"

fun is_create_call :: "event \<Rightarrow> bool" where
  "is_create_call (CallContainerCreate cli config hostConfig netw platform name) = True"
| "is_create_call ev = False"

fun is_close :: "event \<Rightarrow> bool" where
  "is_close (CallClose response) = True"
| "is_close ev = False"

fun is_read :: "event \<Rightarrow> bool" where
  "is_read (CallReadAll s) = True"
| "is_read ev = False"

section \<open>Concrete engines\<close>

text \<open>
  An engine on which every operation succeeds: client 1, the port written as nat.NewPort
  writes it (\<open>port/proto\<close>), container \<open>c0ffee\<close>, exec instance \<open>e1\<close>, and streams 7
  (image pull), 8 and 9 (attached connection and its reader).
\<close>

definition happy :: runtime where
  "happy =
     \<lparr>NewClientWithOpts = Inr (ClientHandle 1),
      NewPort = (\<lambda>proto port. Inr (Port (port @ ''/'' @ proto))),
      ImagePull = (\<lambda>cli img. Inr 7),
      ContainerCreate = (\<lambda>cli config hostConfig netw platform name. Inr ''c0ffee''),
      ContainerStart = (\<lambda>cli cid. None),
      ContainerExecCreate = (\<lambda>cli cid execConfig. Inr ''e1''),
      ContainerExecAttach = (\<lambda>cli execID. Inr \<lparr>Conn = 8, Reader = 9\<rparr>),
      ContainerExecStart = (\<lambda>cli execID. None),
      ReadAll = (\<lambda>s. (''done'', None)),
      ContainerStop = (\<lambda>cli cid. None),
      ContainerRemove = (\<lambda>cli cid. None)\<rparr>"

text \<open>The configuration of the specification's round-trip scenario, with a command.\<close>

definition mysql :: Container where
  "mysql =
     \<lparr>ImageToPull = ''mysql:8'',
      HostPort = ''13306'',
      ContainerPort = ''3306'',
      ContainerProtocol = ''tcp'',
      BindHostConfig = None,
      Env = Some [''MYSQL_ROOT_PASSWORD=secret''],
      Cmd = Some [''true''],
      Sleep = 5,
      client = None,
      id' = ''''\<rparr>"

text \<open>Engines that differ from \<open>happy\<close> in one answer, or two.\<close>

definition pull_fails :: runtime where
  "pull_fails = happy\<lparr>ImagePull := (\<lambda>cli img. Inl (External ''manifest unknown''))\<rparr>"

definition exec_start_fails :: runtime where
  "exec_start_fails =
     happy\<lparr>ContainerExecStart := (\<lambda>cli execID. Some (External ''exec failed''))\<rparr>"

definition drain_fails :: runtime where
  "drain_fails = happy\<lparr>ReadAll := (\<lambda>s. (''do'', Some (External ''unexpected EOF'')))\<rparr>"

definition teardown_fails :: runtime where
  "teardown_fails =
     happy\<lparr>ContainerStop := (\<lambda>cli cid. Some (External ''no such container'')),
           ContainerRemove := (\<lambda>cli cid. Some (External ''removal in progress''))\<rparr>"

text \<open>\<open>mysql\<close> as a successful \<open>CreateContainer\<close> on \<open>happy\<close> leaves it.\<close>

definition mysql_running :: Container where
  "mysql_running = mysql\<lparr>id' := ''c0ffee'', client := Some (ClientHandle 1)\<rparr>"

section \<open>Facts shared by the proofs\<close>

lemmas With_defs =
  WithContainerProtocol_def WithHostPort_def WithContainerPort_def WithBindHostConfig_def
  WithEnv_def WithCmd_def WithSleep_def

lemmas trace_defs = steps_def provision_order_def from_first_failure_def failed_def calls_def

lemmas engine_defs = happy_def pull_fails_def exec_start_fails_def drain_fails_def
  teardown_fails_def mysql_def mysql_running_def

lemma apply_options_append:
  "apply_options (xs @ ys) conf = apply_options ys (apply_options xs conf)"
  by (induction xs arbitrary: conf) simp_all

lemma mutator_fn_commute:
  "mutator_field m1 \<noteq> mutator_field m2 \<Longrightarrow>
   mutator_fn m1 (mutator_fn m2 c) = mutator_fn m2 (mutator_fn m1 c)"
  by (cases m1; cases m2; simp add: With_defs)

lemma mutator_fn_identity_fields:
  "client (mutator_fn m c) = client c \<and> id' (mutator_fn m c) = id' c"
  by (cases m) (simp_all add: With_defs)

lemma apply_mutators_identity_fields:
  "client (apply_options (map mutator_fn ms) c) = client c \<and>
   id' (apply_options (map mutator_fn ms) c) = id' c"
  by (induction ms arbitrary: c) (simp_all add: mutator_fn_identity_fields)

text \<open>The runs of \<open>CreateContainer\<close> and \<open>Stop\<close> on the concrete engines, call by call.\<close>

lemma CreateContainer_pull_fails:
  "CreateContainer pull_fails mysql =
     (Some (Wrap (External ''manifest unknown'') ''unable to pull image''), mysql,
      [(CallNewClientWithOpts, None),
       (CallNewPort ''tcp'' ''3306'', None),
       (CallImagePull (ClientHandle 1) ''mysql:8'', Some (External ''manifest unknown''))])"
  by (simp add: CreateContainer_def engine_defs)

lemma CreateContainer_exec_start_fails:
  "CreateContainer exec_start_fails mysql =
     (Some (Wrap (Wrap (External ''exec failed'') ''unable to start exec'')
              ''commands were not executed''),
      mysql,
      [(CallNewClientWithOpts, None),
       (CallNewPort ''tcp'' ''3306'', None),
       (CallImagePull (ClientHandle 1) ''mysql:8'', None),
       (CallContainerCreate (ClientHandle 1)
          \<lparr>Config_AttachStdout = True, Config_AttachStderr = True,
           Config_Env = Some [''MYSQL_ROOT_PASSWORD=secret''], Config_Image = ''mysql:8''\<rparr>
          \<lparr>HostConfig_PortBindings =
             [(Port ''3306/tcp'',
               [\<lparr>PortBinding_HostIP = ''127.0.0.1'', PortBinding_HostPort = ''13306''\<rparr>])],
           HostConfig_Binds = None\<rparr>
          None None '''', None),
       (CallContainerStart (ClientHandle 1) ''c0ffee'', None),
       (CallSleep 5, None),
       (CallContainerExecCreate (ClientHandle 1) ''c0ffee''
          \<lparr>ExecConfig_AttachStdout = True, ExecConfig_AttachStderr = True,
           ExecConfig_Cmd = Some [''true'']\<rparr>, None),
       (CallContainerExecAttach (ClientHandle 1) ''e1'', None),
       (CallContainerExecStart (ClientHandle 1) ''e1'', Some (External ''exec failed'')),
       (CallClose \<lparr>Conn = 8, Reader = 9\<rparr>, None)])"
  by (simp add: CreateContainer_def executeCommands_def engine_defs)

lemma CreateContainer_happy:
  "CreateContainer happy mysql =
     (None, mysql_running,
      [(CallNewClientWithOpts, None),
       (CallNewPort ''tcp'' ''3306'', None),
       (CallImagePull (ClientHandle 1) ''mysql:8'', None),
       (CallContainerCreate (ClientHandle 1)
          \<lparr>Config_AttachStdout = True, Config_AttachStderr = True,
           Config_Env = Some [''MYSQL_ROOT_PASSWORD=secret''], Config_Image = ''mysql:8''\<rparr>
          \<lparr>HostConfig_PortBindings =
             [(Port ''3306/tcp'',
               [\<lparr>PortBinding_HostIP = ''127.0.0.1'', PortBinding_HostPort = ''13306''\<rparr>])],
           HostConfig_Binds = None\<rparr>
          None None '''', None),
       (CallContainerStart (ClientHandle 1) ''c0ffee'', None),
       (CallSleep 5, None),
       (CallContainerExecCreate (ClientHandle 1) ''c0ffee''
          \<lparr>ExecConfig_AttachStdout = True, ExecConfig_AttachStderr = True,
           ExecConfig_Cmd = Some [''true'']\<rparr>, None),
       (CallContainerExecAttach (ClientHandle 1) ''e1'', None),
       (CallContainerExecStart (ClientHandle 1) ''e1'', None),
       (CallReadAll 9, None),
       (CallPrintln ''done'', None),
       (CallClose \<lparr>Conn = 8, Reader = 9\<rparr>, None)])"
  by (simp add: CreateContainer_def executeCommands_def engine_defs)

lemma CreateContainer_happy_without_command:
  "CreateContainer happy (mysql\<lparr>Cmd := None\<rparr>) =
     (None, mysql\<lparr>Cmd := None, id' := ''c0ffee'', client := Some (ClientHandle 1)\<rparr>,
      [(CallNewClientWithOpts, None),
       (CallNewPort ''tcp'' ''3306'', None),
       (CallImagePull (ClientHandle 1) ''mysql:8'', None),
       (CallContainerCreate (ClientHandle 1)
          \<lparr>Config_AttachStdout = True, Config_AttachStderr = True,
           Config_Env = Some [''MYSQL_ROOT_PASSWORD=secret''], Config_Image = ''mysql:8''\<rparr>
          \<lparr>HostConfig_PortBindings =
             [(Port ''3306/tcp'',
               [\<lparr>PortBinding_HostIP = ''127.0.0.1'', PortBinding_HostPort = ''13306''\<rparr>])],
           HostConfig_Binds = None\<rparr>
          None None '''', None),
       (CallContainerStart (ClientHandle 1) ''c0ffee'', None),
       (CallSleep 5, None)])"
  by (simp add: CreateContainer_def executeCommands_def engine_defs)

lemma executeCommands_exec_start_fails:
  "executeCommands exec_start_fails (ClientHandle 1) ''c0ffee'' (Some [''true'']) =
     (Some (Wrap (External ''exec failed'') ''unable to start exec''),
      [(CallContainerExecCreate (ClientHandle 1) ''c0ffee''
          \<lparr>ExecConfig_AttachStdout = True, ExecConfig_AttachStderr = True,
           ExecConfig_Cmd = Some [''true'']\<rparr>, None),
       (CallContainerExecAttach (ClientHandle 1) ''e1'', None),
       (CallContainerExecStart (ClientHandle 1) ''e1'', Some (External ''exec failed'')),
       (CallClose \<lparr>Conn = 8, Reader = 9\<rparr>, None)])"
  by (simp add: executeCommands_def engine_defs)

lemma executeCommands_drain_fails:
  "executeCommands drain_fails (ClientHandle 1) ''c0ffee'' (Some [''true'']) =
     (None,
      [(CallContainerExecCreate (ClientHandle 1) ''c0ffee''
          \<lparr>ExecConfig_AttachStdout = True, ExecConfig_AttachStderr = True,
           ExecConfig_Cmd = Some [''true'']\<rparr>, None),
       (CallContainerExecAttach (ClientHandle 1) ''e1'', None),
       (CallContainerExecStart (ClientHandle 1) ''e1'', None),
       (CallReadAll 9, Some (External ''unexpected EOF'')),
       (CallPrintln ''do'', None),
       (CallClose \<lparr>Conn = 8, Reader = 9\<rparr>, None)])"
  by (simp add: executeCommands_def engine_defs)

lemma NewContainer_mysql:
  "NewContainer ''mysql:8'' ''3306''
     [WithHostPort ''13306'', WithEnv (Some [''MYSQL_ROOT_PASSWORD=secret'']),
      WithCmd (Some [''true'']), WithSleep 5] = Inr mysql"
  by (simp add: NewContainer_def With_defs mysql_def)


lemma CreateContainer_happy_empty_command:
  "CreateContainer happy (mysql\<lparr>Cmd := Some []\<rparr>) =
     (None, mysql\<lparr>Cmd := Some [], id' := ''c0ffee'', client := Some (ClientHandle 1)\<rparr>,
      [(CallNewClientWithOpts, None),
       (CallNewPort ''tcp'' ''3306'', None),
       (CallImagePull (ClientHandle 1) ''mysql:8'', None),
       (CallContainerCreate (ClientHandle 1)
          \<lparr>Config_AttachStdout = True, Config_AttachStderr = True,
           Config_Env = Some [''MYSQL_ROOT_PASSWORD=secret''], Config_Image = ''mysql:8''\<rparr>
          \<lparr>HostConfig_PortBindings =
             [(Port ''3306/tcp'',
               [\<lparr>PortBinding_HostIP = ''127.0.0.1'', PortBinding_HostPort = ''13306''\<rparr>])],
           HostConfig_Binds = None\<rparr>
          None None '''', None),
       (CallContainerStart (ClientHandle 1) ''c0ffee'', None),
       (CallSleep 5, None),
       (CallContainerExecCreate (ClientHandle 1) ''c0ffee''
          \<lparr>ExecConfig_AttachStdout = True, ExecConfig_AttachStderr = True,
           ExecConfig_Cmd = Some []\<rparr>, None),
       (CallContainerExecAttach (ClientHandle 1) ''e1'', None),
       (CallContainerExecStart (ClientHandle 1) ''e1'', None),
       (CallReadAll 9, None),
       (CallPrintln ''done'', None),
       (CallClose \<lparr>Conn = 8, Reader = 9\<rparr>, None)])"
  by (simp add: CreateContainer_def executeCommands_def engine_defs)

lemma NewContainer_mysql_empty_command:
  "NewContainer ''mysql:8'' ''3306''
     [WithHostPort ''13306'', WithEnv (Some [''MYSQL_ROOT_PASSWORD=secret'']),
      WithCmd (Some []), WithSleep 5] = Inr (mysql\<lparr>Cmd := Some []\<rparr>)"
  by (simp add: NewContainer_def With_defs mysql_def)

section \<open>NewContainer: validation and defaults\<close>

text \<open>
  C2. \<open>NewContainer\<close> returns an error and no instance whenever the image or the
  container port is the empty string, whatever the options. For a non-empty image and
  a non-empty container port and no options it returns a \<open>Container\<close> with the given
  image and container port, \<open>HostPort\<close> "9876", \<open>ContainerProtocol\<close> "tcp", no volume
  bindings, no environment, no command (the three slices are \<open>nil\<close>, of length 0) and a
  zero \<open>Sleep\<close>.
\<close>

theorem NewContainer_validation_and_defaults:
  "(imageToPull = '''' \<or> containerPort = '''' \<longrightarrow>
      (\<exists>err. NewContainer imageToPull containerPort options = Inl err)) \<and>
   (imageToPull \<noteq> '''' \<and> containerPort \<noteq> '''' \<longrightarrow>
      (\<exists>c. NewContainer imageToPull containerPort [] = Inr c \<and>
           ImageToPull c = imageToPull \<and> ContainerPort c = containerPort \<and>
           HostPort c = ''9876'' \<and> ContainerProtocol c = ''tcp'' \<and>
           BindHostConfig c = None \<and> len (BindHostConfig c) = 0 \<and>
           Env c = None \<and> len (Env c) = 0 \<and>
           Cmd c = None \<and> len (Cmd c) = 0 \<and>
           Sleep c = 0))"
  by (simp add: NewContainer_def)

theorem NewContainer_validation_and_defaults_witness:
  "(\<exists>err. NewContainer '''' ''3306'' [WithHostPort ''13306''] = Inl err) \<and>
   (\<exists>err. NewContainer ''mysql:8'' '''' [] = Inl err) \<and>
   (\<exists>c. NewContainer ''mysql:8'' ''3306'' [] = Inr c \<and>
        ImageToPull c = ''mysql:8'' \<and> ContainerPort c = ''3306'' \<and>
        HostPort c = ''9876'' \<and> ContainerProtocol c = ''tcp'' \<and>
        BindHostConfig c = None \<and> len (BindHostConfig c) = 0 \<and>
        Env c = None \<and> len (Env c) = 0 \<and>
        Cmd c = None \<and> len (Cmd c) = 0 \<and>
        Sleep c = 0)"
  using NewContainer_validation_and_defaults [of "''''" "''3306''" "[WithHostPort ''13306'']"]
    NewContainer_validation_and_defaults [of "''mysql:8''" "''''" "[]"]
    NewContainer_validation_and_defaults [of "''mysql:8''" "''3306''" "[]"]
  by simp

text \<open>
  C9. For any two of the seven option functions that assign different fields, and any
  arguments, \<open>NewContainer\<close> returns the same result for the two orders of the pair.
\<close>

theorem mutators_commute:
  "mutator_field m1 \<noteq> mutator_field m2 \<Longrightarrow>
   NewContainer imageToPull containerPort [mutator_fn m1, mutator_fn m2] =
   NewContainer imageToPull containerPort [mutator_fn m2, mutator_fn m1]"
  by (simp add: NewContainer_def mutator_fn_commute)

theorem mutators_commute_witness:
  "mutator_field (MHostPort ''13306'') \<noteq> mutator_field (MContainerPort ''3307'') \<and>
   NewContainer ''mysql:8'' ''3306'' [WithHostPort ''13306'', WithContainerPort ''3307''] =
   NewContainer ''mysql:8'' ''3306'' [WithContainerPort ''3307'', WithHostPort ''13306''] \<and>
   (\<exists>c. NewContainer ''mysql:8'' ''3306'' [WithHostPort ''13306'', WithContainerPort ''3307''] = Inr c \<and>
        HostPort c = ''13306'' \<and> ContainerPort c = ''3307'')"
proof -
  have h: "mutator_field (MHostPort ''13306'') \<noteq> mutator_field (MContainerPort ''3307'')"
    by simp
  from mutators_commute [OF h, of "''mysql:8''" "''3306''"]
  have "NewContainer ''mysql:8'' ''3306'' [WithHostPort ''13306'', WithContainerPort ''3307''] =
        NewContainer ''mysql:8'' ''3306'' [WithContainerPort ''3307'', WithHostPort ''13306'']"
    by simp
  moreover have "\<exists>c. NewContainer ''mysql:8'' ''3306'' [WithHostPort ''13306'', WithContainerPort ''3307''] = Inr c \<and>
        HostPort c = ''13306'' \<and> ContainerPort c = ''3307''"
    by (simp add: NewContainer_def With_defs)
  ultimately show ?thesis using h by blast
qed

text \<open>
  C10. \<open>NewContainer\<close> checks its two positional arguments only: with a non-empty image
  and a non-empty container port it returns a \<open>Container\<close> and no error whatever the
  options are, also when the last option sets \<open>ContainerPort\<close>, or \<open>HostPort\<close>, to the
  empty string, and the \<open>Container\<close> returned then has that port empty.
\<close>

theorem NewContainer_does_not_validate_options:
  "imageToPull \<noteq> '''' \<Longrightarrow> containerPort \<noteq> '''' \<Longrightarrow>
     (\<exists>c. NewContainer imageToPull containerPort options = Inr c) \<and>
     (\<exists>c. NewContainer imageToPull containerPort (options @ [WithContainerPort '''']) = Inr c \<and>
          ContainerPort c = '''') \<and>
     (\<exists>c. NewContainer imageToPull containerPort (options @ [WithHostPort '''']) = Inr c \<and>
          HostPort c = '''')"
  by (simp add: NewContainer_def apply_options_append WithContainerPort_def WithHostPort_def)

theorem NewContainer_does_not_validate_options_witness:
  "''mysql:8'' \<noteq> '''' \<and> ''3306'' \<noteq> '''' \<and>
   (\<exists>c. NewContainer ''mysql:8'' ''3306'' [WithContainerPort ''''] = Inr c \<and> ContainerPort c = '''') \<and>
   (\<exists>c. NewContainer ''mysql:8'' ''3306'' [WithHostPort ''''] = Inr c \<and> HostPort c = '''')"
proof -
  have i: "''mysql:8'' \<noteq> ''''" and p: "''3306'' \<noteq> ''''"
    by simp_all
  from NewContainer_does_not_validate_options [OF i p, of "[]"] i p
  show ?thesis by simp
qed

section \<open>CreateContainer\<close>

text \<open>
  C1. For every engine and every configuration, the run of \<open>CreateContainer\<close> goes
  through the steps connect, resolve port, pull image, create container, start
  container, sleep, exec, in that order and without skipping one: the steps of its trace
  are a non-empty prefix of \<open>provision_order\<close>. When no engine call fails, it returns no
  error and goes through all the steps (all but exec when \<open>Cmd\<close> is \<open>nil\<close>). When an
  engine call fails, the error returned wraps the error of that call (for the exec step,
  wrapped once more by \<open>executeCommands\<close>) under the message of the failing step, so its
  text starts with that message; the failing step is the last step of the trace, and
  what follows the failing call is no engine call and belongs to the same step (it is
  the deferred close of the attached connection). A failed step is a failed call of the
  engine or of the port library; the error of draining the exec output is discarded by
  the source and fails no step.
\<close>

theorem CreateContainer_steps_in_order:
  "CreateContainer rt c = (r, c', tr) \<Longrightarrow>
     steps tr \<noteq> [] \<and> prefix (steps tr) provision_order \<and>
     (case from_first_failure tr of
        [] \<Rightarrow>
          r = None \<and>
          steps tr = (if Cmd c = None then butlast provision_order else provision_order)
      | (ev, res) # rest \<Rightarrow>
          (\<exists>cause err.
              res = Some cause \<and>
              r = Some (Wrap err (step_message (step_of ev))) \<and>
              (err = cause \<or> step_of ev = ExecStep \<and> (\<exists>m. err = Wrap cause m)) \<and>
              prefix (step_message (step_of ev)) (Error (Wrap err (step_message (step_of ev))))) \<and>
          last (steps tr) = step_of ev \<and>
          list_all (\<lambda>y. step_of (fst y) = step_of ev \<and> \<not> engine_call (fst y)) rest)"
  unfolding CreateContainer_def executeCommands_def Let_def
  by (auto simp: trace_defs split: sum.splits option.splits prod.splits if_splits)

theorem CreateContainer_steps_in_order_witness:
  "(\<exists>tr. CreateContainer pull_fails mysql =
           (Some (Wrap (External ''manifest unknown'') ''unable to pull image''), mysql, tr) \<and>
         prefix (steps tr) provision_order \<and>
         steps tr = [Connect, ResolvePort, PullImage] \<and>
         from_first_failure tr =
           [(CallImagePull (ClientHandle 1) ''mysql:8'', Some (External ''manifest unknown''))]) \<and>
   (\<exists>tr. CreateContainer exec_start_fails mysql =
           (Some (Wrap (Wrap (External ''exec failed'') ''unable to start exec'')
                    ''commands were not executed''), mysql, tr) \<and>
         prefix (steps tr) provision_order \<and>
         last (steps tr) = ExecStep \<and>
         from_first_failure tr =
           [(CallContainerExecStart (ClientHandle 1) ''e1'', Some (External ''exec failed'')),
            (CallClose \<lparr>Conn = 8, Reader = 9\<rparr>, None)]) \<and>
   (\<exists>tr. CreateContainer happy mysql = (None, mysql_running, tr) \<and>
         prefix (steps tr) provision_order \<and>
         from_first_failure tr = [])"
proof -
  note pull = CreateContainer_steps_in_order [OF CreateContainer_pull_fails]
  note exec = CreateContainer_steps_in_order [OF CreateContainer_exec_start_fails]
  note full = CreateContainer_steps_in_order [OF CreateContainer_happy]
  have a: "\<exists>tr. CreateContainer pull_fails mysql =
           (Some (Wrap (External ''manifest unknown'') ''unable to pull image''), mysql, tr) \<and>
         prefix (steps tr) provision_order \<and>
         steps tr = [Connect, ResolvePort, PullImage] \<and>
         from_first_failure tr =
           [(CallImagePull (ClientHandle 1) ''mysql:8'', Some (External ''manifest unknown''))]"
    using pull
    by (simp add: CreateContainer_pull_fails steps_def from_first_failure_def failed_def)
  have b: "\<exists>tr. CreateContainer exec_start_fails mysql =
           (Some (Wrap (Wrap (External ''exec failed'') ''unable to start exec'')
                    ''commands were not executed''), mysql, tr) \<and>
         prefix (steps tr) provision_order \<and>
         last (steps tr) = ExecStep \<and>
         from_first_failure tr =
           [(CallContainerExecStart (ClientHandle 1) ''e1'', Some (External ''exec failed'')),
            (CallClose \<lparr>Conn = 8, Reader = 9\<rparr>, None)]"
    using exec
    by (simp add: CreateContainer_exec_start_fails steps_def provision_order_def from_first_failure_def failed_def)
  have c: "\<exists>tr. CreateContainer happy mysql = (None, mysql_running, tr) \<and>
         prefix (steps tr) provision_order \<and>
         from_first_failure tr = []"
    using full
    by (simp add: CreateContainer_happy steps_def provision_order_def from_first_failure_def failed_def)
  from a b c show ?thesis by blast
qed

text \<open>
  C3. A \<open>Container\<close> built by \<open>NewContainer\<close> from the seven option functions has
  \<open>client\<close> \<open>nil\<close> and \<open>id\<close> empty. Whenever \<open>CreateContainer\<close> returns an error (on any
  of its failing paths, the failure of the command after the start included) it leaves
  the \<open>Container\<close> as it found it, so both fields stay unset; when it returns no error,
  it has assigned both: \<open>client\<close> is the client the engine returned and \<open>id\<close> the
  identifier the create call returned, and no other field has changed.
\<close>

theorem identity_fields_set_only_on_success:
  "(NewContainer imageToPull containerPort (map mutator_fn ms) = Inr c0 \<longrightarrow>
      client c0 = None \<and> id' c0 = '''') \<and>
   (CreateContainer rt c = (r, c', tr) \<longrightarrow>
      (r \<noteq> None \<longrightarrow> c' = c) \<and>
      (r = None \<longrightarrow>
         (\<exists>cli config hostConfig cont_ID.
             NewClientWithOpts rt = Inr cli \<and>
             ContainerCreate rt cli config hostConfig None None '''' = Inr cont_ID \<and>
             c' = c\<lparr>id' := cont_ID, client := Some cli\<rparr>)))"
proof (intro conjI impI)
  assume "NewContainer imageToPull containerPort (map mutator_fn ms) = Inr c0"
  then show "client c0 = None" and "id' c0 = ''''"
    by (auto simp: NewContainer_def apply_mutators_identity_fields split: if_splits)
next
  assume "CreateContainer rt c = (r, c', tr)" and "r \<noteq> None"
  then show "c' = c"
    unfolding CreateContainer_def Let_def
    by (auto split: sum.splits option.splits prod.splits)
next
  assume "CreateContainer rt c = (r, c', tr)" and "r = None"
  then show "\<exists>cli config hostConfig cont_ID.
             NewClientWithOpts rt = Inr cli \<and>
             ContainerCreate rt cli config hostConfig None None '''' = Inr cont_ID \<and>
             c' = c\<lparr>id' := cont_ID, client := Some cli\<rparr>"
    unfolding CreateContainer_def Let_def
    by (auto split: sum.splits option.splits prod.splits)
qed

theorem identity_fields_set_only_on_success_witness:
  "NewContainer ''mysql:8'' ''3306''
     (map mutator_fn
        [MHostPort ''13306'', MEnv (Some [''MYSQL_ROOT_PASSWORD=secret'']),
         MCmd (Some [''true'']), MSleep 5]) = Inr mysql \<and>
   client mysql = None \<and> id' mysql = '''' \<and>
   (\<exists>err tr. CreateContainer exec_start_fails mysql = (Some err, mysql, tr)) \<and>
   (\<exists>err tr. CreateContainer pull_fails mysql = (Some err, mysql, tr)) \<and>
   (\<exists>tr. CreateContainer happy mysql = (None, mysql_running, tr)) \<and>
   (\<exists>cli config hostConfig cont_ID.
       NewClientWithOpts happy = Inr cli \<and>
       ContainerCreate happy cli config hostConfig None None '''' = Inr cont_ID \<and>
       mysql_running = mysql\<lparr>id' := cont_ID, client := Some cli\<rparr>)"
proof -
  have n: "NewContainer ''mysql:8'' ''3306''
     (map mutator_fn
        [MHostPort ''13306'', MEnv (Some [''MYSQL_ROOT_PASSWORD=secret'']),
         MCmd (Some [''true'']), MSleep 5]) = Inr mysql"
    by (simp add: NewContainer_mysql)
  have a: "client mysql = None \<and> id' mysql = ''''"
    using identity_fields_set_only_on_success [THEN conjunct1, THEN mp, OF n] .
  have b: "\<exists>err tr. CreateContainer exec_start_fails mysql = (Some err, mysql, tr)"
    using identity_fields_set_only_on_success
        [THEN conjunct2, THEN mp, OF CreateContainer_exec_start_fails, THEN conjunct1]
      CreateContainer_exec_start_fails
    by blast
  have c: "\<exists>err tr. CreateContainer pull_fails mysql = (Some err, mysql, tr)"
    using identity_fields_set_only_on_success
        [THEN conjunct2, THEN mp, OF CreateContainer_pull_fails, THEN conjunct1]
      CreateContainer_pull_fails
    by blast
  have d: "\<exists>tr. CreateContainer happy mysql = (None, mysql_running, tr)"
    using CreateContainer_happy by blast
  have e: "\<exists>cli config hostConfig cont_ID.
       NewClientWithOpts happy = Inr cli \<and>
       ContainerCreate happy cli config hostConfig None None '''' = Inr cont_ID \<and>
       mysql_running = mysql\<lparr>id' := cont_ID, client := Some cli\<rparr>"
    using identity_fields_set_only_on_success
        [THEN conjunct2, THEN mp, OF CreateContainer_happy, THEN conjunct2, THEN mp, OF refl] .
  from n a b c d e show ?thesis by blast
qed

text \<open>
  C5, as stated, fails. \<open>executeCommands\<close> skips the exec operations when \<open>cmd == nil\<close>,
  not when \<open>cmd\<close> is empty: with \<open>WithCmd([]string{})\<close> the command has length 0, every
  engine call succeeds, \<open>CreateContainer\<close> returns no error, and exec-create, exec-attach
  and exec-start are all called, with the empty command.
\<close>

theorem empty_command_is_executed:
  "NewContainer ''mysql:8'' ''3306''
     [WithHostPort ''13306'', WithEnv (Some [''MYSQL_ROOT_PASSWORD=secret'']),
      WithCmd (Some []), WithSleep 5] = Inr (mysql\<lparr>Cmd := Some []\<rparr>) \<and>
   len (Cmd (mysql\<lparr>Cmd := Some []\<rparr>)) = 0 \<and>
   fst (CreateContainer happy (mysql\<lparr>Cmd := Some []\<rparr>)) = None \<and>
   from_first_failure (snd (snd (CreateContainer happy (mysql\<lparr>Cmd := Some []\<rparr>)))) = [] \<and>
   calls is_exec_call (snd (snd (CreateContainer happy (mysql\<lparr>Cmd := Some []\<rparr>)))) =
     [CallContainerExecCreate (ClientHandle 1) ''c0ffee''
        \<lparr>ExecConfig_AttachStdout = True, ExecConfig_AttachStderr = True,
         ExecConfig_Cmd = Some []\<rparr>,
      CallContainerExecAttach (ClientHandle 1) ''e1'',
      CallContainerExecStart (ClientHandle 1) ''e1'']"
  by (simp add: NewContainer_mysql_empty_command CreateContainer_happy_empty_command
      from_first_failure_def failed_def calls_def)

text \<open>
  C5, amended. For every configuration whose \<open>Cmd\<close> is \<open>nil\<close> (no command configured),
  when every call of the run succeeds (connect, port resolution, pull, create, start),
  \<open>CreateContainer\<close> calls none of exec-create, exec-attach and exec-start, stops after
  the sleep and returns no error.
\<close>

theorem no_exec_without_command:
  "Cmd c = None \<Longrightarrow> CreateContainer rt c = (r, c', tr) \<Longrightarrow> list_all (\<lambda>x. \<not> failed x) tr \<Longrightarrow>
     r = None \<and> calls is_exec_call tr = [] \<and> steps tr = butlast provision_order"
  unfolding CreateContainer_def executeCommands_def Let_def
  by (auto simp: trace_defs split: sum.splits option.splits)

theorem no_exec_without_command_witness:
  "Cmd (mysql\<lparr>Cmd := None\<rparr>) = None \<and>
   (\<exists>c' tr. CreateContainer happy (mysql\<lparr>Cmd := None\<rparr>) = (None, c', tr) \<and>
            list_all (\<lambda>x. \<not> failed x) tr \<and>
            calls is_exec_call tr = [] \<and>
            steps tr = [Connect, ResolvePort, PullImage, CreateStep, StartStep, SleepStep])"
proof -
  have h: "Cmd (mysql\<lparr>Cmd := None\<rparr>) = None"
    by simp
  note run = CreateContainer_happy_without_command
  have ok: "list_all (\<lambda>x. \<not> failed x) (snd (snd (CreateContainer happy (mysql\<lparr>Cmd := None\<rparr>))))"
    by (simp add: run failed_def)
  from no_exec_without_command [OF h run ok [unfolded run snd_conv]]
  show ?thesis
    using h ok by (simp add: run provision_order_def)
qed

text \<open>
  C6. For every engine and configuration, \<open>CreateContainer\<close> issues at most one
  container-create call, and that call receives: the stdout and stderr attachment flags
  set, \<open>Env\<close> as the environment, \<open>ImageToPull\<close> as the image, \<open>BindHostConfig\<close> as the
  volume bindings, and a port map with the single entry that binds the port
  \<open>nat.NewPort\<close> built from \<open>ContainerProtocol\<close> and \<open>ContainerPort\<close> to host IP
  127.0.0.1 and \<open>HostPort\<close> (no networking configuration, no platform, no name). The
  call is issued on every run that returns no error, and on every run whose image pull
  succeeded.
\<close>

theorem create_call_arguments:
  "CreateContainer rt c = (r, c', tr) \<Longrightarrow>
     (calls is_create_call tr = [] \<or>
      (\<exists>cli containerPort.
          NewClientWithOpts rt = Inr cli \<and>
          NewPort rt (ContainerProtocol c) (ContainerPort c) = Inr containerPort \<and>
          calls is_create_call tr =
            [CallContainerCreate cli
               \<lparr>Config_AttachStdout = True, Config_AttachStderr = True,
                Config_Env = Env c, Config_Image = ImageToPull c\<rparr>
               \<lparr>HostConfig_PortBindings =
                  [(containerPort,
                    [\<lparr>PortBinding_HostIP = ''127.0.0.1'', PortBinding_HostPort = HostPort c\<rparr>])],
                HostConfig_Binds = BindHostConfig c\<rparr>
               None None ''''])) \<and>
     (calls is_create_call tr = [] \<longrightarrow>
        r \<noteq> None \<and> \<not> list_ex (\<lambda>x. step_of (fst x) = PullImage \<and> snd x = None) tr)"
  unfolding CreateContainer_def executeCommands_def Let_def
  by (auto simp: calls_def split: sum.splits option.splits prod.splits if_splits)

theorem create_call_arguments_witness:
  "\<exists>r c' tr.
      CreateContainer happy mysql = (r, c', tr) \<and>
      NewPort happy ''tcp'' ''3306'' = Inr (Port ''3306/tcp'') \<and>
      calls is_create_call tr =
        [CallContainerCreate (ClientHandle 1)
           \<lparr>Config_AttachStdout = True, Config_AttachStderr = True,
            Config_Env = Some [''MYSQL_ROOT_PASSWORD=secret''], Config_Image = ''mysql:8''\<rparr>
           \<lparr>HostConfig_PortBindings =
              [(Port ''3306/tcp'',
                [\<lparr>PortBinding_HostIP = ''127.0.0.1'', PortBinding_HostPort = ''13306''\<rparr>])],
            HostConfig_Binds = None\<rparr>
           None None '''']"
proof -
  have p: "NewPort happy ''tcp'' ''3306'' = Inr (Port ''3306/tcp'')"
    by (simp add: happy_def)
  from create_call_arguments [OF CreateContainer_happy]
  have "calls is_create_call (snd (snd (CreateContainer happy mysql))) =
        [CallContainerCreate (ClientHandle 1)
           \<lparr>Config_AttachStdout = True, Config_AttachStderr = True,
            Config_Env = Some [''MYSQL_ROOT_PASSWORD=secret''], Config_Image = ''mysql:8''\<rparr>
           \<lparr>HostConfig_PortBindings =
              [(Port ''3306/tcp'',
                [\<lparr>PortBinding_HostIP = ''127.0.0.1'', PortBinding_HostPort = ''13306''\<rparr>])],
            HostConfig_Binds = None\<rparr>
           None None '''']"
    by (simp add: CreateContainer_happy calls_def)
  with p show ?thesis
    by (simp add: CreateContainer_happy)
qed

lemma CreateContainer_reads_nothing_before_create:
  "calls is_read
     (takeWhile (\<lambda>x. \<not> is_create_call (fst x)) (snd (snd (CreateContainer rt c)))) = [] \<and>
   calls is_read
     (takeWhile (\<lambda>x. \<not> is_exec_call (fst x)) (snd (snd (CreateContainer rt c)))) = []"
  unfolding CreateContainer_def executeCommands_def Let_def
  by (auto simp: calls_def split: sum.splits option.splits prod.splits)

text \<open>
  C7 asks that the response stream of the image pull be consumed before the
  container-create call. The source assigns that stream to \<open>_\<close>: on the engine \<open>happy\<close>
  the pull returns stream 7, the next call of the run is the container-create call, and
  the only stream the whole run reads is 9, the reader of the attached exec connection.
  The lemma before it shows the same of every run: nothing is read before the
  container-create call, nor before the first exec operation.
\<close>

theorem pull_stream_never_read:
  "ImagePull happy (ClientHandle 1) ''mysql:8'' = Inr 7 \<and>
   fst (CreateContainer happy mysql) = None \<and>
   map fst (take 4 (snd (snd (CreateContainer happy mysql)))) =
     [CallNewClientWithOpts,
      CallNewPort ''tcp'' ''3306'',
      CallImagePull (ClientHandle 1) ''mysql:8'',
      CallContainerCreate (ClientHandle 1)
        \<lparr>Config_AttachStdout = True, Config_AttachStderr = True,
         Config_Env = Some [''MYSQL_ROOT_PASSWORD=secret''], Config_Image = ''mysql:8''\<rparr>
        \<lparr>HostConfig_PortBindings =
           [(Port ''3306/tcp'',
             [\<lparr>PortBinding_HostIP = ''127.0.0.1'', PortBinding_HostPort = ''13306''\<rparr>])],
         HostConfig_Binds = None\<rparr>
        None None ''''] \<and>
   calls is_read (snd (snd (CreateContainer happy mysql))) = [CallReadAll 9]"
  by (simp add: CreateContainer_happy calls_def) (simp add: happy_def)

section \<open>executeCommands\<close>

text \<open>
  C8. In every run of \<open>executeCommands\<close> in which the attach call succeeded, whatever
  the run returns (exec-start failed, draining the output failed, or all went well), the
  attached connection the engine returned is closed exactly once, and the close is the
  last call of the run.
\<close>

theorem attached_connection_released:
  "executeCommands rt cli cid cmd = (r, tr) \<Longrightarrow>
   (CallContainerExecAttach cli execID, None) \<in> set tr \<Longrightarrow>
     (\<exists>response.
         ContainerExecAttach rt cli execID = Inr response \<and>
         calls is_close tr = [CallClose response] \<and>
         last tr = (CallClose response, None))"
  unfolding executeCommands_def Let_def
  by (auto simp: calls_def split: sum.splits option.splits prod.splits if_splits)

theorem attached_connection_released_witness:
  "(\<exists>err tr.
       executeCommands exec_start_fails (ClientHandle 1) ''c0ffee'' (Some [''true'']) = (Some err, tr) \<and>
       (CallContainerExecAttach (ClientHandle 1) ''e1'', None) \<in> set tr \<and>
       calls is_close tr = [CallClose \<lparr>Conn = 8, Reader = 9\<rparr>] \<and>
       last tr = (CallClose \<lparr>Conn = 8, Reader = 9\<rparr>, None)) \<and>
   (\<exists>tr.
       executeCommands drain_fails (ClientHandle 1) ''c0ffee'' (Some [''true'']) = (None, tr) \<and>
       (CallContainerExecAttach (ClientHandle 1) ''e1'', None) \<in> set tr \<and>
       (CallReadAll 9, Some (External ''unexpected EOF'')) \<in> set tr \<and>
       calls is_close tr = [CallClose \<lparr>Conn = 8, Reader = 9\<rparr>] \<and>
       last tr = (CallClose \<lparr>Conn = 8, Reader = 9\<rparr>, None))"
proof -
  have a: "(CallContainerExecAttach (ClientHandle 1) ''e1'', None)
             \<in> set (snd (executeCommands exec_start_fails (ClientHandle 1) ''c0ffee'' (Some [''true''])))"
    unfolding executeCommands_exec_start_fails by simp
  have b: "(CallContainerExecAttach (ClientHandle 1) ''e1'', None)
             \<in> set (snd (executeCommands drain_fails (ClientHandle 1) ''c0ffee'' (Some [''true''])))"
    unfolding executeCommands_drain_fails by simp
  have ra: "ContainerExecAttach exec_start_fails (ClientHandle 1) ''e1'' = Inr \<lparr>Conn = 8, Reader = 9\<rparr>"
    by (simp add: engine_defs)
  have rb: "ContainerExecAttach drain_fails (ClientHandle 1) ''e1'' = Inr \<lparr>Conn = 8, Reader = 9\<rparr>"
    by (simp add: engine_defs)
  from attached_connection_released
         [OF executeCommands_exec_start_fails a [unfolded executeCommands_exec_start_fails snd_conv]]
  have 1: "\<exists>err tr.
       executeCommands exec_start_fails (ClientHandle 1) ''c0ffee'' (Some [''true'']) = (Some err, tr) \<and>
       (CallContainerExecAttach (ClientHandle 1) ''e1'', None) \<in> set tr \<and>
       calls is_close tr = [CallClose \<lparr>Conn = 8, Reader = 9\<rparr>] \<and>
       last tr = (CallClose \<lparr>Conn = 8, Reader = 9\<rparr>, None)"
    unfolding ra executeCommands_exec_start_fails by simp
  from attached_connection_released
         [OF executeCommands_drain_fails b [unfolded executeCommands_drain_fails snd_conv]]
  have 2: "\<exists>tr.
       executeCommands drain_fails (ClientHandle 1) ''c0ffee'' (Some [''true'']) = (None, tr) \<and>
       (CallContainerExecAttach (ClientHandle 1) ''e1'', None) \<in> set tr \<and>
       (CallReadAll 9, Some (External ''unexpected EOF'')) \<in> set tr \<and>
       calls is_close tr = [CallClose \<lparr>Conn = 8, Reader = 9\<rparr>] \<and>
       last tr = (CallClose \<lparr>Conn = 8, Reader = 9\<rparr>, None)"
    unfolding rb executeCommands_drain_fails by simp
  from 1 2 show ?thesis by blast
qed

section \<open>Stop\<close>



text \<open>
  On an instance that was never provisioned \<open>Stop\<close> makes no call: the \<open>nil\<close> client is
  dereferenced first.
\<close>

lemma Stop_unprovisioned_panics:
  "client c = None \<Longrightarrow> Stop rt c = Inl NilPointerDereference"
  by (simp add: Stop_def)

end
